theory Spec2Isabelle
  imports Main
begin

section \<open>The configuration resolver of mitmproxy/tools/cmdline.py\<close>

text \<open>
  The development embeds \<^verbatim>\<open>get_common_options\<close> (lines 20-162 of
  \<^verbatim>\<open>mitmproxy/tools/cmdline.py\<close>), the function that turns the namespace produced by
  argparse into the keyword dictionary of the options object.

  Python values are modelled as follows.
  \<^item> An attribute that argparse leaves at \<^verbatim>\<open>None\<close> unless the flag is given is an
    \<open>option\<close>; a \<^verbatim>\<open>store_true\<close> flag is a \<open>bool\<close>.
  \<^item> \<^verbatim>\<open>args.streamfile\<close> is \<^verbatim>\<open>None\<close> or the pair built by the
    \<^verbatim>\<open>type=lambda f: (f, "w")\<close> and \<^verbatim>\<open>type=lambda f: (f, "a")\<close> converters of
    \<^verbatim>\<open>basic_options\<close> (lines 220-230).
  \<^item> A raised exception is the left injection of a sum; \<^verbatim>\<open>args.verbose = 0\<close> mutates
    the caller's namespace, so the function returns the namespace next to its result.
  \<^item> The keys of the result that are plain copies of an attribute and enter no check
    (\<^verbatim>\<open>anticache\<close>, \<^verbatim>\<open>cadir\<close>, \<^verbatim>\<open>listen_port\<close>, ...) are left out of both records.
\<close>

subsection \<open>Data\<close>

datatype error =
    OptionsError string   \<comment> \<open>\<^verbatim>\<open>exceptions.OptionsError(msg)\<close>\<close>
  | ValueError            \<comment> \<open>raised inside \<^verbatim>\<open>human.parse_size\<close>, caught by \<^verbatim>\<open>except ValueError\<close>\<close>

record args =
  stickycookie_filt :: "string option"
  stickyauth_filt :: "string option"
  stream_large_bodies :: "string option"
  streamfile :: "(string \<times> string) option"
  rfile :: "string option"
  certs :: "string list option"
  body_size_limit :: "string option"
  transparent_proxy :: bool
  socks_proxy :: bool
  reverse_proxy :: "string option"
  upstream_proxy :: "string option"
  add_upstream_certs_to_client_chain :: bool
  upstream_cert :: bool
  quiet :: bool
  verbose :: "int option"

text \<open>
  A size option of the result holds what the attribute held (\<^verbatim>\<open>None\<close> or a string) when
  the guard \<^verbatim>\<open>if stream_large_bodies:\<close> is false, and the integer returned by the size
  parser otherwise.
\<close>

datatype sizeval = Raw "string option" | Parsed int

record config =
  opt_rfile :: "string option"
  opt_stickycookie :: "string option"
  opt_stickyauth :: "string option"
  opt_stream_large_bodies :: sizeval
  opt_streamfile :: "string option"
  opt_streamfile_append :: bool
  opt_verbosity :: "int option"
  opt_add_upstream_certs_to_client_chain :: bool
  opt_body_size_limit :: sizeval
  opt_certs :: "string list list"
  opt_mode :: string
  opt_upstream_cert :: bool
  opt_upstream_server :: "string option"

subsection \<open>Python helpers\<close>

text \<open>Truth value of an attribute that is \<^verbatim>\<open>None\<close> or a string: only a non-empty string is true.\<close>

definition truthy :: "string option \<Rightarrow> bool" where
  "truthy v = (case v of None \<Rightarrow> False | Some s \<Rightarrow> s \<noteq> [])"

text \<open>\<^verbatim>\<open>s.split(sep, 1)\<close>: one piece when \<open>sep\<close> does not occur, otherwise the text before
  the first occurrence and the text after it.\<close>

fun split1 :: "char \<Rightarrow> string \<Rightarrow> string list" where
  "split1 sep [] = [[]]"
| "split1 sep (c # cs) =
     (if c = sep then [[], cs]
      else (case split1 sep cs of
              p # ps \<Rightarrow> (c # p) # ps
            | [] \<Rightarrow> [[c]]))"

subsection \<open>The steps of get_common_options\<close>

text \<open>Lines 21-26.\<close>

definition stickycookie :: "args \<Rightarrow> string option" where
  "stickycookie a = (if truthy (stickycookie_filt a) then stickycookie_filt a else None)"

definition stickyauth :: "args \<Rightarrow> string option" where
  "stickyauth a = (if truthy (stickyauth_filt a) then stickyauth_filt a else None)"

text \<open>Lines 28-30: the call of the size parser is not wrapped, so its \<^verbatim>\<open>ValueError\<close>
  leaves the function. The parser \<^verbatim>\<open>human.parse_size\<close> is a parameter.\<close>

definition stream_large_bodies_step :: "(string \<Rightarrow> int option) \<Rightarrow> args \<Rightarrow> error + sizeval" where
  "stream_large_bodies_step parse_size a =
     (if truthy (stream_large_bodies a)
      then (case parse_size (the (stream_large_bodies a)) of
              None \<Rightarrow> Inl ValueError
            | Some n \<Rightarrow> Inr (Parsed n))
      else Inr (Raw (stream_large_bodies a)))"

text \<open>Lines 32-42. The first message is formatted with \<^verbatim>\<open>args.rfile\<close>; the second
  string is raised as it stands, braces included.\<close>

definition streamfile_step :: "args \<Rightarrow> error option" where
  "streamfile_step a =
     (case streamfile a of
        None \<Rightarrow> None
      | Some (f, m) \<Rightarrow>
          if Some f = rfile a then
            (if m = ''wb''
             then Some (OptionsError
                    (''Cannot use '' @ [CHR 0x27] @ f @ [CHR 0x27] @
                     '' for both reading and writing flows. Are you looking for --afile?''))
             else Some (OptionsError
                    ''Cannot use '{}' for both reading and appending flows. That would trigger an infinite loop.''))
          else None)"

text \<open>Lines 45-50.\<close>

definition cert_parts :: "string \<Rightarrow> string list" where
  "cert_parts i =
     (let parts = split1 (CHR ''='') i
      in if length parts = 1 then [''*'', hd parts] else parts)"

definition cert_specs :: "args \<Rightarrow> string list" where
  \<comment> \<open>\<^verbatim>\<open>args.certs or []\<close>\<close>
  "cert_specs a = (case certs a of None \<Rightarrow> [] | Some l \<Rightarrow> l)"

definition certs_step :: "args \<Rightarrow> string list list" where
  "certs_step a = map cert_parts (cert_specs a)"

text \<open>Lines 52-59.\<close>

definition body_size_limit_step :: "(string \<Rightarrow> int option) \<Rightarrow> args \<Rightarrow> error + sizeval" where
  "body_size_limit_step parse_size a =
     (if truthy (body_size_limit a)
      then (case parse_size (the (body_size_limit a)) of
              None \<Rightarrow> Inl (OptionsError
                       (''Invalid body size limit specification: '' @ the (body_size_limit a)))
            | Some n \<Rightarrow> Inr (Parsed n))
      else Inr (Raw (body_size_limit a)))"

text \<open>Lines 61-87. \<open>original_addr\<close> is the truth value of \<^verbatim>\<open>platform.original_addr\<close>.
  The counter \<open>c\<close>, the mode and the upstream server are threaded through the four
  tests in the order of the source; \<open>proxy_mode_rest\<close> is lines 71-87, entered with the
  counter and the mode that the transparent test leaves.\<close>

definition proxy_mode_rest :: "nat \<Rightarrow> string \<Rightarrow> args \<Rightarrow> error + (string \<times> string option)" where
  "proxy_mode_rest c0 mode0 a =
     (let upstream_server = None;
          (c, mode) =
            (if socks_proxy a then (c0 + 1, ''socks5'') else (c0, mode0));
          (c, mode, upstream_server) =
            (if truthy (reverse_proxy a) then (c + 1, ''reverse'', reverse_proxy a)
             else (c, mode, upstream_server));
          (c, mode, upstream_server) =
            (if truthy (upstream_proxy a) then (c + 1, ''upstream'', upstream_proxy a)
             else (c, mode, upstream_server))
      in if c > 1
         then Inl (OptionsError
                ''Transparent, SOCKS5, reverse and upstream proxy mode are mutually exclusive. Read the docs on proxy modes to understand why.'')
         else Inr (mode, upstream_server))"

definition proxy_mode_step :: "bool \<Rightarrow> args \<Rightarrow> error + (string \<times> string option)" where
  "proxy_mode_step original_addr a =
     (let c = (0::nat); mode = ''regular''
      in if transparent_proxy a
         then (if \<not> original_addr
               then Inl (OptionsError ''Transparent mode not supported on this platform.'')
               else proxy_mode_rest (c + 1) ''transparent'' a)
         else proxy_mode_rest c mode a)"

text \<open>Lines 88-94.\<close>

definition upstream_certs_step :: "args \<Rightarrow> error option" where
  "upstream_certs_step a =
     (if add_upstream_certs_to_client_chain a \<and> \<not> upstream_cert a
      then Some (OptionsError
             ''The no-upstream-cert and add-upstream-certs-to-client-chain options are mutually exclusive. If no-upstream-cert is enabled then the upstream certificate is not retrieved before generating the client certificate chain.'')
      else None)"

text \<open>Lines 96-97: the only write to the namespace.\<close>

definition quiet_step :: "args \<Rightarrow> args" where
  "quiet_step a = (if quiet a then a\<lparr>verbose := Some 0\<rparr> else a)"

text \<open>Lines 99-162, for the keys kept in \<open>config\<close>.\<close>

definition assemble ::
  "args \<Rightarrow> sizeval \<Rightarrow> string list list \<Rightarrow> sizeval \<Rightarrow> string \<Rightarrow> string option \<Rightarrow> config" where
  "assemble a slb cs bsl mode upstream_server =
     \<lparr> opt_rfile = rfile a,
       opt_stickycookie = stickycookie a,
       opt_stickyauth = stickyauth a,
       opt_stream_large_bodies = slb,
       opt_streamfile = (case streamfile a of None \<Rightarrow> None | Some (f, m) \<Rightarrow> Some f),
       opt_streamfile_append = (case streamfile a of None \<Rightarrow> False | Some (f, m) \<Rightarrow> m = ''a''),
       opt_verbosity = verbose a,
       opt_add_upstream_certs_to_client_chain = add_upstream_certs_to_client_chain a,
       opt_body_size_limit = bsl,
       opt_certs = cs,
       opt_mode = mode,
       opt_upstream_cert = upstream_cert a,
       opt_upstream_server = upstream_server \<rparr>"

subsection \<open>get_common_options\<close>

text \<open>The statements of the source in their order. The first component is the returned
  dictionary or the exception raised; the second is the namespace as the call leaves it.\<close>

definition get_common_options ::
  "(string \<Rightarrow> int option) \<Rightarrow> bool \<Rightarrow> args \<Rightarrow> (error + config) \<times> args" where
  "get_common_options parse_size original_addr a =
     (case stream_large_bodies_step parse_size a of
        Inl e \<Rightarrow> (Inl e, a)
      | Inr slb \<Rightarrow>
     (case streamfile_step a of
        Some e \<Rightarrow> (Inl e, a)
      | None \<Rightarrow>
     (let cs = certs_step a in
     (case body_size_limit_step parse_size a of
        Inl e \<Rightarrow> (Inl e, a)
      | Inr bsl \<Rightarrow>
     (case proxy_mode_step original_addr a of
        Inl e \<Rightarrow> (Inl e, a)
      | Inr (mode, upstream_server) \<Rightarrow>
     (case upstream_certs_step a of
        Some e \<Rightarrow> (Inl e, a)
      | None \<Rightarrow>
     (let a' = quiet_step a
      in (Inr (assemble a' slb cs bsl mode upstream_server), a'))))))))"

subsection \<open>The size parser\<close>

text \<open>
  Modelled from the spec: \<^verbatim>\<open>human.parse_size\<close> (module \<^verbatim>\<open>mitmproxy/utils/human.py\<close>)
  is called by the resolver and is not among the sources. Section 4.2 of the
  specification gives its contract: the input is a string of digits optionally followed
  by one of k, m, g (either case); the digits are a byte count, multiplied by a power of
  1024; the empty string, a non-numeric prefix and an unknown suffix are rejected. The
  worked values of section 8 fix the factor 1 without a suffix, 1024 for k and 1024 * 1024 for m;
  g is given the next power. \<open>None\<close> is the parser's failure.
  The resolver itself takes the parser as a parameter; this one instantiates it.
\<close>

definition is_digit :: "char \<Rightarrow> bool" where
  "is_digit c = (c \<in> set ''0123456789'')"

fun digits_value :: "int \<Rightarrow> string \<Rightarrow> int" where
  "digits_value acc [] = acc"
| "digits_value acc (c # cs) = digits_value (10 * acc + (int (of_char c) - 48)) cs"

definition scaled :: "string \<Rightarrow> int \<Rightarrow> int option" where
  "scaled ds factor =
     (if ds \<noteq> [] \<and> list_all is_digit ds then Some (digits_value 0 ds * factor) else None)"

definition parse_size :: "string \<Rightarrow> int option" where
  "parse_size s =
     (if s = [] then None
      else if last s \<in> set ''kK'' then scaled (butlast s) 1024
      else if last s \<in> set ''mM'' then scaled (butlast s) (1024 * 1024)
      else if last s \<in> set ''gG'' then scaled (butlast s) (1024 * 1024 * 1024)
      else scaled s 1)"

subsection \<open>Vocabulary of the properties\<close>

text \<open>The namespace of an invocation without any flag: every \<^verbatim>\<open>store\<close> attribute is
  \<^verbatim>\<open>None\<close>, every \<^verbatim>\<open>store_true\<close> flag is off, and upstream certificates are retrieved.\<close>

definition no_flags :: args where
  "no_flags =
     \<lparr> stickycookie_filt = None, stickyauth_filt = None, stream_large_bodies = None,
       streamfile = None, rfile = None, certs = None, body_size_limit = None,
       transparent_proxy = False, socks_proxy = False, reverse_proxy = None,
       upstream_proxy = None, add_upstream_certs_to_client_chain = False,
       upstream_cert = True, quiet = False, verbose = None \<rparr>"

text \<open>The conditions under which the individual rules fire, each read off its guard.\<close>

definition stream_malformed :: "(string \<Rightarrow> int option) \<Rightarrow> args \<Rightarrow> bool" where
  "stream_malformed ps a =
     (truthy (stream_large_bodies a) \<and> ps (the (stream_large_bodies a)) = None)"

definition streamfile_conflict :: "args \<Rightarrow> bool" where
  "streamfile_conflict a =
     (case streamfile a of None \<Rightarrow> False | Some (f, m) \<Rightarrow> rfile a = Some f)"

definition body_malformed :: "(string \<Rightarrow> int option) \<Rightarrow> args \<Rightarrow> bool" where
  "body_malformed ps a =
     (truthy (body_size_limit a) \<and> ps (the (body_size_limit a)) = None)"

definition platform_missing :: "bool \<Rightarrow> args \<Rightarrow> bool" where
  "platform_missing original_addr a = (transparent_proxy a \<and> \<not> original_addr)"

text \<open>How many of the four selectors are requested. A reverse or upstream selector is
  requested when its target is a non-empty string, which is the test of lines 74 and 78.\<close>

definition requested :: "args \<Rightarrow> nat" where
  "requested a =
     length (filter id [transparent_proxy a, socks_proxy a,
                        truthy (reverse_proxy a), truthy (upstream_proxy a)])"

definition chain_violation :: "args \<Rightarrow> bool" where
  "chain_violation a = (add_upstream_certs_to_client_chain a \<and> \<not> upstream_cert a)"

definition mode_conflict_error :: error where
  "mode_conflict_error = OptionsError
     ''Transparent, SOCKS5, reverse and upstream proxy mode are mutually exclusive. Read the docs on proxy modes to understand why.''"

definition platform_error :: error where
  "platform_error = OptionsError ''Transparent mode not supported on this platform.''"

definition chain_error :: error where
  "chain_error = OptionsError
     ''The no-upstream-cert and add-upstream-certs-to-client-chain options are mutually exclusive. If no-upstream-cert is enabled then the upstream certificate is not retrieved before generating the client certificate chain.''"

definition same_file_error :: "string \<Rightarrow> error" where
  "same_file_error f = OptionsError
     (''Cannot use '' @ [CHR 0x27] @ f @ [CHR 0x27] @
      '' for both reading and writing flows. Are you looking for --afile?'')"

definition infinite_loop_error :: error where
  "infinite_loop_error = OptionsError
     ''Cannot use '{}' for both reading and appending flows. That would trigger an infinite loop.''"

definition body_size_error :: "string \<Rightarrow> error" where
  "body_size_error s = OptionsError (''Invalid body size limit specification: '' @ s)"

text \<open>What lines 63-81 leave in \<^verbatim>\<open>mode\<close> and \<^verbatim>\<open>upstream_server\<close>: each test that
  holds overwrites the result of the tests before it.\<close>

definition last_selected :: "args \<Rightarrow> string \<times> string option" where
  "last_selected a =
     (if truthy (upstream_proxy a) then (''upstream'', upstream_proxy a)
      else if truthy (reverse_proxy a) then (''reverse'', reverse_proxy a)
      else if socks_proxy a then (''socks5'', None)
      else if transparent_proxy a then (''transparent'', None)
      else (''regular'', None))"

text \<open>The dictionary returned when no rule fires.\<close>

definition resolved :: "(string \<Rightarrow> int option) \<Rightarrow> args \<Rightarrow> config" where
  "resolved ps a =
     assemble (quiet_step a)
       (if truthy (stream_large_bodies a)
        then Parsed (the (ps (the (stream_large_bodies a))))
        else Raw (stream_large_bodies a))
       (certs_step a)
       (if truthy (body_size_limit a)
        then Parsed (the (ps (the (body_size_limit a))))
        else Raw (body_size_limit a))
       (fst (last_selected a)) (snd (last_selected a))"

text \<open>
  The rules as a list, in the order in which the specification numbers them, each rule
  evaluated on its own: the list holds the error of every rule that the namespace
  violates, not only of the first. The stream-file entry is whatever error lines 32-42
  raise. The size check of the stream-large-bodies option is kept apart
  (\<open>stream_malformed\<close>).
\<close>

definition violations :: "(string \<Rightarrow> int option) \<Rightarrow> bool \<Rightarrow> args \<Rightarrow> error list" where
  "violations ps oa a =
     (if streamfile_conflict a then [the (streamfile_step a)] else []) @
     (if body_malformed ps a then [body_size_error (the (body_size_limit a))] else []) @
     (if platform_missing oa a then [platform_error] else []) @
     (if 1 < requested a then [mode_conflict_error] else []) @
     (if chain_violation a then [chain_error] else [])"

section \<open>Auxiliary facts\<close>

lemmas vocab = stream_malformed_def streamfile_conflict_def body_malformed_def
  platform_missing_def requested_def chain_violation_def truthy_def

lemma error_distinct [simp]:
  "ValueError \<noteq> same_file_error f"
  "ValueError \<noteq> infinite_loop_error"
  "ValueError \<noteq> body_size_error s"
  "ValueError \<noteq> platform_error"
  "ValueError \<noteq> mode_conflict_error"
  "ValueError \<noteq> chain_error"
  "same_file_error f \<noteq> ValueError"
  "same_file_error f \<noteq> infinite_loop_error"
  "same_file_error f \<noteq> body_size_error s"
  "same_file_error f \<noteq> platform_error"
  "same_file_error f \<noteq> mode_conflict_error"
  "same_file_error f \<noteq> chain_error"
  "infinite_loop_error \<noteq> ValueError"
  "infinite_loop_error \<noteq> same_file_error f"
  "infinite_loop_error \<noteq> body_size_error s"
  "infinite_loop_error \<noteq> platform_error"
  "infinite_loop_error \<noteq> mode_conflict_error"
  "infinite_loop_error \<noteq> chain_error"
  "body_size_error s \<noteq> ValueError"
  "body_size_error s \<noteq> same_file_error f"
  "body_size_error s \<noteq> infinite_loop_error"
  "body_size_error s \<noteq> platform_error"
  "body_size_error s \<noteq> mode_conflict_error"
  "body_size_error s \<noteq> chain_error"
  "platform_error \<noteq> ValueError"
  "platform_error \<noteq> same_file_error f"
  "platform_error \<noteq> infinite_loop_error"
  "platform_error \<noteq> body_size_error s"
  "platform_error \<noteq> mode_conflict_error"
  "platform_error \<noteq> chain_error"
  "mode_conflict_error \<noteq> ValueError"
  "mode_conflict_error \<noteq> same_file_error f"
  "mode_conflict_error \<noteq> infinite_loop_error"
  "mode_conflict_error \<noteq> body_size_error s"
  "mode_conflict_error \<noteq> platform_error"
  "mode_conflict_error \<noteq> chain_error"
  "chain_error \<noteq> ValueError"
  "chain_error \<noteq> same_file_error f"
  "chain_error \<noteq> infinite_loop_error"
  "chain_error \<noteq> body_size_error s"
  "chain_error \<noteq> platform_error"
  "chain_error \<noteq> mode_conflict_error"
  by (simp_all add: platform_error_def mode_conflict_error_def chain_error_def
        infinite_loop_error_def same_file_error_def body_size_error_def)

subsection \<open>Each step in terms of its guard\<close>

lemma proxy_mode_step_eq:
  "proxy_mode_step oa a =
     (if platform_missing oa a then Inl platform_error
      else if requested a > 1 then Inl mode_conflict_error
      else Inr (last_selected a))"
  by (simp add: proxy_mode_step_def proxy_mode_rest_def platform_missing_def requested_def
        last_selected_def platform_error_def mode_conflict_error_def Let_def)

lemma stream_step_eq:
  "stream_large_bodies_step ps a =
     (if stream_malformed ps a then Inl ValueError
      else Inr (if truthy (stream_large_bodies a)
                then Parsed (the (ps (the (stream_large_bodies a))))
                else Raw (stream_large_bodies a)))"
  by (auto simp: stream_large_bodies_step_def stream_malformed_def split: option.splits)

lemma body_step_eq:
  "body_size_limit_step ps a =
     (if body_malformed ps a then Inl (body_size_error (the (body_size_limit a)))
      else Inr (if truthy (body_size_limit a)
                then Parsed (the (ps (the (body_size_limit a))))
                else Raw (body_size_limit a)))"
  by (auto simp: body_size_limit_step_def body_malformed_def body_size_error_def split: option.splits)

lemma streamfile_step_eq:
  "streamfile_step a =
     (if streamfile_conflict a
      then Some (if snd (the (streamfile a)) = ''wb''
                 then same_file_error (fst (the (streamfile a)))
                 else infinite_loop_error)
      else None)"
  by (auto simp: streamfile_step_def streamfile_conflict_def same_file_error_def
        infinite_loop_error_def split: option.splits prod.splits)

lemma upstream_certs_step_eq:
  "upstream_certs_step a = (if chain_violation a then Some chain_error else None)"
  by (simp add: upstream_certs_step_def chain_violation_def chain_error_def)

text \<open>The whole function as one chain of guards, in the order of the statements.\<close>

lemma get_common_options_eq:
  "get_common_options ps oa a =
     (if stream_malformed ps a then (Inl ValueError, a)
      else if streamfile_conflict a
      then (Inl (if snd (the (streamfile a)) = ''wb''
                 then same_file_error (fst (the (streamfile a)))
                 else infinite_loop_error), a)
      else if body_malformed ps a then (Inl (body_size_error (the (body_size_limit a))), a)
      else if platform_missing oa a then (Inl platform_error, a)
      else if requested a > 1 then (Inl mode_conflict_error, a)
      else if chain_violation a then (Inl chain_error, a)
      else (Inr (resolved ps a), quiet_step a))"
  by (simp add: get_common_options_def stream_step_eq streamfile_step_eq body_step_eq
        proxy_mode_step_eq upstream_certs_step_eq resolved_def Let_def split: prod.splits)

subsection \<open>Splitting and attributes that no rule reads\<close>

lemma split1_no_sep: "sep \<notin> set s \<Longrightarrow> split1 sep s = [s]"
  by (induction s) auto

lemma split1_first: "sep \<notin> set d \<Longrightarrow> split1 sep (d @ sep # p) = [d, p]"
  by (induction d) auto

lemma cert_parts_plain: "CHR ''='' \<notin> set s \<Longrightarrow> cert_parts s = [''*'', s]"
  by (simp add: cert_parts_def split1_no_sep)

lemma cert_parts_pair: "CHR ''='' \<notin> set d \<Longrightarrow> cert_parts (d @ CHR ''='' # p) = [d, p]"
  by (simp add: cert_parts_def split1_first)

lemma certs_update_vocab [simp]:
  "stream_malformed ps (a\<lparr>certs := x\<rparr>) = stream_malformed ps a"
  "streamfile_conflict (a\<lparr>certs := x\<rparr>) = streamfile_conflict a"
  "body_malformed ps (a\<lparr>certs := x\<rparr>) = body_malformed ps a"
  "platform_missing oa (a\<lparr>certs := x\<rparr>) = platform_missing oa a"
  "requested (a\<lparr>certs := x\<rparr>) = requested a"
  "chain_violation (a\<lparr>certs := x\<rparr>) = chain_violation a"
  by (simp_all add: vocab split: option.splits)

lemma stream_update_vocab [simp]:
  "stream_malformed ps (a\<lparr>stream_large_bodies := None\<rparr>) = False"
  "streamfile_conflict (a\<lparr>stream_large_bodies := x\<rparr>) = streamfile_conflict a"
  "body_malformed ps (a\<lparr>stream_large_bodies := x\<rparr>) = body_malformed ps a"
  "platform_missing oa (a\<lparr>stream_large_bodies := x\<rparr>) = platform_missing oa a"
  "requested (a\<lparr>stream_large_bodies := x\<rparr>) = requested a"
  "chain_violation (a\<lparr>stream_large_bodies := x\<rparr>) = chain_violation a"
  by (simp_all add: vocab split: option.splits)

lemma failure_ignores_certs:
  "isl (fst (get_common_options ps oa (a\<lparr>certs := x\<rparr>))) = isl (fst (get_common_options ps oa a))"
  by (simp add: get_common_options_eq)

lemma failure_ignores_empty_stream:
  "\<not> stream_malformed ps a \<Longrightarrow>
   isl (fst (get_common_options ps oa a))
     = isl (fst (get_common_options ps oa (a\<lparr>stream_large_bodies := None\<rparr>)))"
  by (simp add: get_common_options_eq)

lemmas eval = get_common_options_eq vocab no_flags_def resolved_def assemble_def
  last_selected_def quiet_step_def certs_step_def cert_specs_def cert_parts_def
  parse_size_def scaled_def is_digit_def violations_def streamfile_step_eq
  stickycookie_def stickyauth_def

section \<open>The properties\<close>

subsection \<open>C1: reading and writing the same file\<close>

text \<open>
  C1 asks that a stream file whose path equals the flow-read-file path is rejected with
  two differently worded errors: the "both reading and writing" message when the stream
  file was given in write mode, and an "infinite loop" message naming the file when it
  was given in append mode. The converter of \<^verbatim>\<open>-w\<close> (line 223) tags the path with
  \<^verbatim>\<open>"w"\<close>, while line 33 compares the tag with \<^verbatim>\<open>"wb"\<close>; and the second message
  (lines 39-42) is never formatted. Evaluated at \<^verbatim>\<open>-r flow.db -w flow.db\<close> and at
  \<^verbatim>\<open>-r flow.db -a flow.db\<close>, the function raises one and the same error, the
  appending one, with the placeholder \<^verbatim>\<open>{}\<close> in place of the file name; it is not the
  "both reading and writing" error for that file.
\<close>

theorem C1_write_mode_raises_append_message:
  "fst (get_common_options parse_size True
          (no_flags\<lparr>rfile := Some ''flow.db'', streamfile := Some (''flow.db'', ''w'')\<rparr>))
     = Inl (OptionsError
         ''Cannot use '{}' for both reading and appending flows. That would trigger an infinite loop.'')
   \<and> fst (get_common_options parse_size True
          (no_flags\<lparr>rfile := Some ''flow.db'', streamfile := Some (''flow.db'', ''a'')\<rparr>))
     = Inl (OptionsError
         ''Cannot use '{}' for both reading and appending flows. That would trigger an infinite loop.'')
   \<and> OptionsError
         ''Cannot use '{}' for both reading and appending flows. That would trigger an infinite loop.''
       \<noteq> same_file_error ''flow.db''"
  by (simp add: get_common_options_eq vocab no_flags_def infinite_loop_error_def
        same_file_error_def)

subsection \<open>C2: the stream-large-bodies size\<close>

text \<open>
  C2 as stated fails: it counts the empty string among the malformed values that make
  resolution fail, but the guard of line 29 is the truth value of the string, so an empty
  value is never handed to the parser. At \<^verbatim>\<open>--stream ""\<close> the size parser of the
  specification rejects the value and resolution succeeds all the same.
\<close>

theorem C2_empty_value_counterexample:
  "parse_size '''' = None
   \<and> \<not> isl (fst (get_common_options parse_size True
                   (no_flags\<lparr>stream_large_bodies := Some ''''\<rparr>)))"
  by (simp add: eval)

text \<open>
  C2, amended: a stream-large-bodies value that is absent or empty is not parsed; it is
  copied to the result unchanged and resolution fails exactly when it fails without the
  option. A non-empty value that the size parser accepts is replaced in the result by
  the byte count the parser returns, and again causes no failure of its own. (What
  happens on a non-empty value that the parser rejects is not part of the statement.)
\<close>

theorem C2_stream_large_bodies:
  "(\<not> truthy (stream_large_bodies a) \<longrightarrow>
       (\<forall>cfg. fst (get_common_options ps oa a) = Inr cfg
          \<longrightarrow> opt_stream_large_bodies cfg = Raw (stream_large_bodies a))
       \<and> isl (fst (get_common_options ps oa a))
           = isl (fst (get_common_options ps oa (a\<lparr>stream_large_bodies := None\<rparr>))))
   \<and> (\<forall>s n. stream_large_bodies a = Some s \<and> s \<noteq> [] \<and> ps s = Some n \<longrightarrow>
       (\<forall>cfg. fst (get_common_options ps oa a) = Inr cfg
          \<longrightarrow> opt_stream_large_bodies cfg = Parsed n)
       \<and> isl (fst (get_common_options ps oa a))
           = isl (fst (get_common_options ps oa (a\<lparr>stream_large_bodies := None\<rparr>))))"
proof -
  have sel: "\<forall>cfg. fst (get_common_options ps oa a) = Inr cfg \<longrightarrow>
      opt_stream_large_bodies cfg =
        (if truthy (stream_large_bodies a)
         then Parsed (the (ps (the (stream_large_bodies a))))
         else Raw (stream_large_bodies a))"
    by (auto simp: get_common_options_eq resolved_def assemble_def split: if_splits)
  have a: "\<not> truthy (stream_large_bodies a) \<Longrightarrow> \<not> stream_malformed ps a"
    by (simp add: stream_malformed_def)
  have b: "stream_large_bodies a = Some s \<Longrightarrow> ps s = Some n \<Longrightarrow> \<not> stream_malformed ps a" for s n
    by (simp add: stream_malformed_def)
  show ?thesis
    using sel a b failure_ignores_empty_stream[of ps a oa]
    by (auto simp: truthy_def)
qed

theorem C2_stream_large_bodies_witness:
  "map_sum id opt_stream_large_bodies
     (fst (get_common_options parse_size True (no_flags\<lparr>stream_large_bodies := Some ''3m''\<rparr>)))
     = Inr (Parsed 3145728)
   \<and> map_sum id opt_stream_large_bodies
     (fst (get_common_options parse_size True (no_flags\<lparr>stream_large_bodies := Some ''''\<rparr>)))
     = Inr (Raw (Some ''''))"
  using C2_stream_large_bodies[of "no_flags\<lparr>stream_large_bodies := Some ''3m''\<rparr>" parse_size True]
    C2_stream_large_bodies[of "no_flags\<lparr>stream_large_bodies := Some ''''\<rparr>" parse_size True]
  by (simp add: eval)

subsection \<open>C3: selection of the proxy mode\<close>

text \<open>
  C3 as stated fails: with two selectors requested the error is not always the
  mutual-exclusion one. At \<^verbatim>\<open>-T --socks\<close> on a platform without
  \<^verbatim>\<open>platform.original_addr\<close> the test of line 66 raises before the counter is compared
  (line 82).
\<close>

theorem C3_platform_check_counterexample:
  "requested (no_flags\<lparr>transparent_proxy := True, socks_proxy := True\<rparr>) = 2
   \<and> fst (get_common_options parse_size False
            (no_flags\<lparr>transparent_proxy := True, socks_proxy := True\<rparr>)) = Inl platform_error
   \<and> platform_error \<noteq> mode_conflict_error"
  by (simp add: eval)

text \<open>
  C3, amended: let resolution reach the comparison of the counter, that is, the
  stream-large-bodies value is not rejected by the parser, the stream file is not the
  flow-read file, the body-size limit is not rejected, and transparent mode is requested
  only where the platform supports it. A reverse or upstream selector counts as requested
  when its target is a non-empty string. Then: if more than one selector is requested,
  resolution fails with the OptionsError that names the four modes as mutually exclusive;
  if exactly one is requested and the certificate-chain precondition holds, resolution
  succeeds with that mode (and, for reverse and upstream, with the target as upstream
  server); if none is requested and the precondition holds, it succeeds with mode
  "regular" and no upstream server.
\<close>

theorem C3_proxy_mode_selection:
  assumes "\<not> stream_malformed ps a" "\<not> streamfile_conflict a" "\<not> body_malformed ps a"
    and "transparent_proxy a \<longrightarrow> oa"
  shows "(1 < requested a \<longrightarrow> fst (get_common_options ps oa a) = Inl mode_conflict_error)
       \<and> (requested a = 1 \<and> \<not> chain_violation a \<longrightarrow>
            (\<exists>cfg. fst (get_common_options ps oa a) = Inr cfg
               \<and> (transparent_proxy a \<longrightarrow>
                     opt_mode cfg = ''transparent'' \<and> opt_upstream_server cfg = None)
               \<and> (socks_proxy a \<longrightarrow>
                     opt_mode cfg = ''socks5'' \<and> opt_upstream_server cfg = None)
               \<and> (truthy (reverse_proxy a) \<longrightarrow>
                     opt_mode cfg = ''reverse'' \<and> opt_upstream_server cfg = reverse_proxy a)
               \<and> (truthy (upstream_proxy a) \<longrightarrow>
                     opt_mode cfg = ''upstream'' \<and> opt_upstream_server cfg = upstream_proxy a)))
       \<and> (requested a = 0 \<and> \<not> chain_violation a \<longrightarrow>
            (\<exists>cfg. fst (get_common_options ps oa a) = Inr cfg
               \<and> opt_mode cfg = ''regular'' \<and> opt_upstream_server cfg = None))"
proof -
  have pm: "\<not> platform_missing oa a"
    using assms(4) by (simp add: platform_missing_def)
  have one: "requested a = 1 \<Longrightarrow>
       (transparent_proxy a \<longrightarrow> last_selected a = (''transparent'', None))
     \<and> (socks_proxy a \<longrightarrow> last_selected a = (''socks5'', None))
     \<and> (truthy (reverse_proxy a) \<longrightarrow> last_selected a = (''reverse'', reverse_proxy a))
     \<and> (truthy (upstream_proxy a) \<longrightarrow> last_selected a = (''upstream'', upstream_proxy a))"
    by (auto simp: requested_def last_selected_def split: if_splits)
  have none: "requested a = 0 \<Longrightarrow> last_selected a = (''regular'', None)"
    by (auto simp: requested_def last_selected_def split: if_splits)
  show ?thesis
    using assms(1-3) pm one none
    by (simp add: get_common_options_eq resolved_def assemble_def)
qed

theorem C3_proxy_mode_selection_witness:
  "fst (get_common_options parse_size True
          (no_flags\<lparr>socks_proxy := True, reverse_proxy := Some ''http://h''\<rparr>))
     = Inl mode_conflict_error
   \<and> map_sum id (\<lambda>cfg. (opt_mode cfg, opt_upstream_server cfg))
        (fst (get_common_options parse_size True (no_flags\<lparr>reverse_proxy := Some ''http://h''\<rparr>)))
     = Inr (''reverse'', Some ''http://h'')
   \<and> map_sum id (\<lambda>cfg. (opt_mode cfg, opt_upstream_server cfg))
        (fst (get_common_options parse_size True no_flags))
     = Inr (''regular'', None)"
  using C3_proxy_mode_selection[of parse_size
          "no_flags\<lparr>socks_proxy := True, reverse_proxy := Some ''http://h''\<rparr>" True]
    C3_proxy_mode_selection[of parse_size "no_flags\<lparr>reverse_proxy := Some ''http://h''\<rparr>" True]
    C3_proxy_mode_selection[of parse_size no_flags True]
  by (simp add: eval)

subsection \<open>C4: the certificate-chain precondition\<close>

text \<open>
  What holds for every namespace. The certificate-chain error is raised exactly when
  add-upstream-certs-to-client-chain is enabled, upstream-certificate retrieval is
  disabled and none of the rules checked before line 88 has fired. With the two options
  in that state resolution always fails: with an OptionsError as long as the
  stream-large-bodies value is not rejected by the size parser, and with the parser's own
  \<^verbatim>\<open>ValueError\<close> when it is.
\<close>

lemma chain_error_iff:
  "fst (get_common_options ps oa a) = Inl chain_error \<longleftrightarrow>
     chain_violation a
     \<and> \<not> stream_malformed ps a \<and> \<not> streamfile_conflict a \<and> \<not> body_malformed ps a
     \<and> \<not> platform_missing oa a \<and> requested a \<le> 1"
  by (auto simp: get_common_options_eq)

lemma chain_violation_options_error:
  assumes "chain_violation a" "\<not> stream_malformed ps a"
  shows "\<exists>msg. fst (get_common_options ps oa a) = Inl (OptionsError msg)"
  using assms
  by (simp add: get_common_options_eq same_file_error_def infinite_loop_error_def
        body_size_error_def platform_error_def mode_conflict_error_def chain_error_def)

lemma chain_violation_value_error:
  assumes "chain_violation a" "stream_malformed ps a"
  shows "fst (get_common_options ps oa a) = Inl ValueError"
  using assms by (simp add: get_common_options_eq)

text \<open>
  C4 asks that, for every namespace in which add-upstream-certs-to-client-chain is
  enabled while upstream-certificate retrieval is disabled, resolution fails with an
  OptionsError. On their own the two options do raise the certificate-chain
  OptionsError, and next to a rejected body-size limit (\<^verbatim>\<open>-Z 3x\<close>), whose parser call
  is wrapped in \<^verbatim>\<open>try\<close>/\<^verbatim>\<open>except ValueError\<close> (lines 54-59), resolution still fails
  with an OptionsError. Next to a rejected stream-large-bodies value (\<^verbatim>\<open>--stream 3x\<close>),
  whose parser call at line 30 is not wrapped, the \<^verbatim>\<open>ValueError\<close> of the size parser
  leaves the function and no OptionsError is raised.
\<close>

theorem C4_chain_violation_raises_value_error:
  "fst (get_common_options parse_size True
          (no_flags\<lparr>stream_large_bodies := Some ''3x'',
                    add_upstream_certs_to_client_chain := True, upstream_cert := False\<rparr>))
     = Inl ValueError
   \<and> fst (get_common_options parse_size True
          (no_flags\<lparr>body_size_limit := Some ''3x'',
                    add_upstream_certs_to_client_chain := True, upstream_cert := False\<rparr>))
     = Inl (OptionsError ''Invalid body size limit specification: 3x'')
   \<and> fst (get_common_options parse_size True
          (no_flags\<lparr>add_upstream_certs_to_client_chain := True, upstream_cert := False\<rparr>))
     = Inl (OptionsError
         ''The no-upstream-cert and add-upstream-certs-to-client-chain options are mutually exclusive. If no-upstream-cert is enabled then the upstream certificate is not retrieved before generating the client certificate chain.'')"
  by (simp add: eval body_size_error_def chain_error_def)

subsection \<open>C5: the order of the rules\<close>

text \<open>
  C5 as stated fails: the quiet override is not the first step. It is the last statement
  before the dictionary is built (lines 96-97), so a resolution that aborts leaves
  \<^verbatim>\<open>args.verbose\<close> as the caller passed it. At \<^verbatim>\<open>-q -v -Z 3x\<close> together with
  \<^verbatim>\<open>--no-upstream-cert --add-upstream-certs-to-client-chain\<close> two rules are violated,
  resolution aborts, and the verbosity of the namespace is still 3, where an override
  applied first would have left 0.
\<close>

theorem C5_quiet_override_counterexample:
  "quiet (no_flags\<lparr>quiet := True, verbose := Some 3, body_size_limit := Some ''3x'',
            add_upstream_certs_to_client_chain := True, upstream_cert := False\<rparr>)
   \<and> length (violations parse_size True
        (no_flags\<lparr>quiet := True, verbose := Some 3, body_size_limit := Some ''3x'',
            add_upstream_certs_to_client_chain := True, upstream_cert := False\<rparr>)) = 2
   \<and> verbose (snd (get_common_options parse_size True
        (no_flags\<lparr>quiet := True, verbose := Some 3, body_size_limit := Some ''3x'',
            add_upstream_certs_to_client_chain := True, upstream_cert := False\<rparr>))) = Some 3
   \<and> verbose (quiet_step
        (no_flags\<lparr>quiet := True, verbose := Some 3, body_size_limit := Some ''3x'',
            add_upstream_certs_to_client_chain := True, upstream_cert := False\<rparr>)) = Some 0"
  by (simp add: eval)

text \<open>
  C5, amended: the rules are checked in the order stream-large-bodies parsing,
  stream-file conflict, body-size-limit parsing, platform support of transparent mode,
  exclusivity of the proxy modes, certificate-chain precondition; the quiet override is
  applied after all of them, only when none has fired. A stream-large-bodies value that
  the parser rejects aborts resolution whatever the other attributes hold, and the
  namespace is left untouched. Otherwise the outcome is decided by the list of all
  violated rules: if it is empty, resolution succeeds and the namespace has the quiet
  override applied; if not, resolution aborts with the error of the first violated rule
  alone and the namespace is left untouched.
\<close>

theorem C5_fail_fast_order:
  "(stream_malformed ps a \<longrightarrow>
       isl (fst (get_common_options ps oa a))
       \<and> snd (get_common_options ps oa a) = a
       \<and> (\<forall>a'. stream_large_bodies a' = stream_large_bodies a \<longrightarrow>
              fst (get_common_options ps oa a') = fst (get_common_options ps oa a)))
   \<and> (\<not> stream_malformed ps a \<longrightarrow>
       get_common_options ps oa a =
         (case violations ps oa a of
            [] \<Rightarrow> (Inr (resolved ps a), quiet_step a)
          | e # es \<Rightarrow> (Inl e, a)))"
  by (simp add: get_common_options_eq violations_def streamfile_step_eq stream_malformed_def)

theorem C5_fail_fast_order_witness:
  "violations parse_size True
     (no_flags\<lparr>body_size_limit := Some ''3x'', socks_proxy := True,
         upstream_proxy := Some ''http://u'', add_upstream_certs_to_client_chain := True,
         upstream_cert := False\<rparr>)
     = [body_size_error ''3x'', mode_conflict_error, chain_error]
   \<and> fst (get_common_options parse_size True
     (no_flags\<lparr>body_size_limit := Some ''3x'', socks_proxy := True,
         upstream_proxy := Some ''http://u'', add_upstream_certs_to_client_chain := True,
         upstream_cert := False\<rparr>))
     = Inl (body_size_error ''3x'')
   \<and> isl (fst (get_common_options parse_size True
              (no_flags\<lparr>stream_large_bodies := Some ''m3'', socks_proxy := True\<rparr>)))
   \<and> map_sum id opt_verbosity
        (fst (get_common_options parse_size True (no_flags\<lparr>quiet := True, verbose := Some 3\<rparr>)))
     = Inr (Some 0)"
  using C5_fail_fast_order[of parse_size
     "no_flags\<lparr>body_size_limit := Some ''3x'', socks_proxy := True,
         upstream_proxy := Some ''http://u'', add_upstream_certs_to_client_chain := True,
         upstream_cert := False\<rparr>" True]
    C5_fail_fast_order[of parse_size
      "no_flags\<lparr>stream_large_bodies := Some ''m3'', socks_proxy := True\<rparr>" True]
    C5_fail_fast_order[of parse_size "no_flags\<lparr>quiet := True, verbose := Some 3\<rparr>" True]
  by (simp add: eval)

subsection \<open>C6: normalization of the certificate list\<close>

text \<open>
  C6: normalization is a total function of the list of certificate specifications. The
  result has one entry per input string, at the same position: a string without
  \<^verbatim>\<open>=\<close> gives the pair of \<^verbatim>\<open>"*"\<close> and the string; a string that is \<open>d\<close>,
  then the first \<^verbatim>\<open>=\<close>, then \<open>p\<close> gives the pair of \<open>d\<close> and \<open>p\<close>. Nothing is
  dropped, merged or reordered. A successful resolution stores exactly this list, and the
  list never decides whether resolution fails.
\<close>

theorem C6_certificate_normalization:
  "length (certs_step a) = length (cert_specs a)
   \<and> (\<forall>i < length (cert_specs a).
        (CHR ''='' \<notin> set (cert_specs a ! i) \<longrightarrow> certs_step a ! i = [''*'', cert_specs a ! i])
        \<and> (\<forall>d p. cert_specs a ! i = d @ CHR ''='' # p \<and> CHR ''='' \<notin> set d
               \<longrightarrow> certs_step a ! i = [d, p]))
   \<and> (\<forall>cfg. fst (get_common_options ps oa a) = Inr cfg \<longrightarrow> opt_certs cfg = certs_step a)
   \<and> isl (fst (get_common_options ps oa a))
       = isl (fst (get_common_options ps oa (a\<lparr>certs := None\<rparr>)))"
proof -
  have "\<forall>cfg. fst (get_common_options ps oa a) = Inr cfg \<longrightarrow> opt_certs cfg = certs_step a"
    by (auto simp: get_common_options_eq resolved_def assemble_def split: if_splits)
  then show ?thesis
    by (simp add: certs_step_def cert_parts_plain cert_parts_pair failure_ignores_certs)
qed

theorem C6_certificate_normalization_witness:
  "certs_step (no_flags\<lparr>certs := Some [''example.com=a.pem'', ''a.pem'', ''a.pem'', ''x=y=z'']\<rparr>)
     = [[''example.com'', ''a.pem''], [''*'', ''a.pem''], [''*'', ''a.pem''], [''x'', ''y=z'']]
   \<and> map_sum id opt_certs
        (fst (get_common_options parse_size True
                (no_flags\<lparr>certs := Some [''example.com=a.pem'', ''a.pem'', ''a.pem'', ''x=y=z'']\<rparr>)))
     = Inr [[''example.com'', ''a.pem''], [''*'', ''a.pem''], [''*'', ''a.pem''], [''x'', ''y=z'']]"
  using C6_certificate_normalization[of
      "no_flags\<lparr>certs := Some [''example.com=a.pem'', ''a.pem'', ''a.pem'', ''x=y=z'']\<rparr>"
      parse_size True]
  by (simp add: eval)

subsection \<open>C7: transparent mode and the platform\<close>

text \<open>
  C7 as stated fails: with transparent mode requested on a platform without
  original-destination recovery, the error is not always the platform one, because the
  rules of lines 28-59 are checked first. At \<^verbatim>\<open>-T -Z 3x\<close> the error is the one of the
  body-size limit.
\<close>

theorem C7_earlier_rule_counterexample:
  "transparent_proxy (no_flags\<lparr>transparent_proxy := True, body_size_limit := Some ''3x''\<rparr>)
   \<and> fst (get_common_options parse_size False
            (no_flags\<lparr>transparent_proxy := True, body_size_limit := Some ''3x''\<rparr>))
       = Inl (body_size_error ''3x'')
   \<and> body_size_error ''3x'' \<noteq> platform_error"
  by (simp add: eval)

text \<open>
  C7, amended: if transparent mode is requested, the platform lacks
  original-destination recovery, and none of the rules checked earlier fires (the
  stream-large-bodies value is not rejected by the parser, the stream file is not the
  flow-read file, the body-size limit is not rejected), resolution fails with the
  OptionsError "Transparent mode not supported on this platform." and leaves the
  namespace untouched. If transparent mode is not requested, the capability is not
  consulted: resolution gives the same outcome with and without it.
\<close>

theorem C7_transparent_platform:
  "(transparent_proxy a \<and> \<not> oa \<and> \<not> stream_malformed ps a \<and> \<not> streamfile_conflict a
      \<and> \<not> body_malformed ps a
      \<longrightarrow> get_common_options ps oa a = (Inl platform_error, a))
   \<and> (\<not> transparent_proxy a
      \<longrightarrow> get_common_options ps False a = get_common_options ps True a)"
  by (simp add: get_common_options_eq platform_missing_def)

theorem C7_transparent_platform_witness:
  "get_common_options parse_size False (no_flags\<lparr>transparent_proxy := True\<rparr>)
     = (Inl platform_error, no_flags\<lparr>transparent_proxy := True\<rparr>)
   \<and> get_common_options parse_size False (no_flags\<lparr>socks_proxy := True\<rparr>)
     = get_common_options parse_size True (no_flags\<lparr>socks_proxy := True\<rparr>)
   \<and> map_sum id opt_mode (fst (get_common_options parse_size False (no_flags\<lparr>socks_proxy := True\<rparr>)))
     = Inr ''socks5''"
  using C7_transparent_platform[of "no_flags\<lparr>transparent_proxy := True\<rparr>" False parse_size]
    C7_transparent_platform[of "no_flags\<lparr>socks_proxy := True\<rparr>" False parse_size]
  by (simp add: eval)

subsection \<open>C8: the quiet override\<close>

text \<open>
  C8: in every resolved configuration the verbosity is 0, the minimum, when quiet was
  requested, whatever the verbose flag held; when quiet was not requested it is the
  value of the verbose flag unchanged. The namespace returned to the caller carries the
  same value.
\<close>

theorem C8_quiet_verbosity:
  assumes "fst (get_common_options ps oa a) = Inr cfg"
  shows "opt_verbosity cfg = (if quiet a then Some 0 else verbose a)
       \<and> verbose (snd (get_common_options ps oa a)) = opt_verbosity cfg"
  using assms
  by (auto simp: get_common_options_eq resolved_def assemble_def quiet_step_def split: if_splits)

theorem C8_quiet_verbosity_witness:
  "map_sum id opt_verbosity
     (fst (get_common_options parse_size True (no_flags\<lparr>quiet := True, verbose := Some 3\<rparr>)))
     = Inr (Some 0)
   \<and> map_sum id opt_verbosity
     (fst (get_common_options parse_size True (no_flags\<lparr>verbose := Some 3\<rparr>)))
     = Inr (Some 3)"
proof -
  have q: "fst (get_common_options parse_size True (no_flags\<lparr>quiet := True, verbose := Some 3\<rparr>))
      = Inr (resolved parse_size (no_flags\<lparr>quiet := True, verbose := Some 3\<rparr>))"
    by (simp add: get_common_options_eq vocab no_flags_def)
  have v: "fst (get_common_options parse_size True (no_flags\<lparr>verbose := Some 3\<rparr>))
      = Inr (resolved parse_size (no_flags\<lparr>verbose := Some 3\<rparr>))"
    by (simp add: get_common_options_eq vocab no_flags_def)
  show ?thesis
    using C8_quiet_verbosity[OF q] C8_quiet_verbosity[OF v] q v
    by (simp add: no_flags_def)
qed

subsection \<open>C9: the body-size limit\<close>

text \<open>
  C9 as stated fails: a body-size limit that is present and that the size parser rejects
  does not always make resolution fail. The guard of line 53 is the truth value of the
  string, so at \<^verbatim>\<open>-Z ""\<close> the parser, which rejects the empty string, is never called,
  and resolution succeeds.
\<close>

theorem C9_empty_value_counterexample:
  "parse_size '''' = None
   \<and> \<not> isl (fst (get_common_options parse_size True (no_flags\<lparr>body_size_limit := Some ''''\<rparr>)))"
  by (simp add: eval)

text \<open>
  C9, amended: if the body-size limit is a non-empty string that the size parser
  rejects, and neither of the two rules checked earlier fires (the stream-large-bodies
  value is not rejected, the stream file is not the flow-read file), resolution fails with
  the OptionsError "Invalid body size limit specification: " followed by the value. No
  resolution that fails on its stream-large-bodies value reports that message. A
  non-empty value that the parser accepts is replaced in every resolved configuration by
  the byte count the parser returns, and it is the same parser for both options: the same
  string in both gives the same byte count in both.
\<close>

theorem C9_body_size_limit:
  "(body_malformed ps a \<and> \<not> stream_malformed ps a \<and> \<not> streamfile_conflict a \<longrightarrow>
       fst (get_common_options ps oa a) = Inl (body_size_error (the (body_size_limit a))))
   \<and> (\<forall>a' s. stream_malformed ps a' \<longrightarrow>
          fst (get_common_options ps oa a') \<noteq> Inl (body_size_error s))
   \<and> (\<forall>s n cfg. body_size_limit a = Some s \<and> s \<noteq> [] \<and> ps s = Some n
          \<and> fst (get_common_options ps oa a) = Inr cfg \<longrightarrow>
          opt_body_size_limit cfg = Parsed n
          \<and> (stream_large_bodies a = Some s \<longrightarrow> opt_stream_large_bodies cfg = Parsed n))"
proof -
  have sel: "fst (get_common_options ps oa a) = Inr cfg \<Longrightarrow>
      opt_body_size_limit cfg =
        (if truthy (body_size_limit a)
         then Parsed (the (ps (the (body_size_limit a))))
         else Raw (body_size_limit a))
      \<and> opt_stream_large_bodies cfg =
        (if truthy (stream_large_bodies a)
         then Parsed (the (ps (the (stream_large_bodies a))))
         else Raw (stream_large_bodies a))" for cfg
    by (auto simp: get_common_options_eq resolved_def assemble_def split: if_splits)
  show ?thesis
    using sel by (auto simp: get_common_options_eq truthy_def)
qed

theorem C9_body_size_limit_witness:
  "fst (get_common_options parse_size True (no_flags\<lparr>body_size_limit := Some ''3x''\<rparr>))
     = Inl (OptionsError ''Invalid body size limit specification: 3x'')
   \<and> map_sum id (\<lambda>cfg. (opt_body_size_limit cfg, opt_stream_large_bodies cfg))
       (fst (get_common_options parse_size True
          (no_flags\<lparr>body_size_limit := Some ''3m'', stream_large_bodies := Some ''3m''\<rparr>)))
     = Inr (Parsed 3145728, Parsed 3145728)
   \<and> map_sum id opt_body_size_limit
       (fst (get_common_options parse_size True (no_flags\<lparr>body_size_limit := Some ''512k''\<rparr>)))
     = Inr (Parsed 524288)"
  using C9_body_size_limit[of parse_size "no_flags\<lparr>body_size_limit := Some ''3x''\<rparr>" True]
    C9_body_size_limit[of parse_size
       "no_flags\<lparr>body_size_limit := Some ''3m'', stream_large_bodies := Some ''3m''\<rparr>" True]
    C9_body_size_limit[of parse_size "no_flags\<lparr>body_size_limit := Some ''512k''\<rparr>" True]
  by (simp add: eval body_size_error_def)

subsection \<open>C10: the platform check comes before the exclusivity check\<close>

text \<open>
  C10 as stated fails: with transparent mode requested on an unsupported platform next to
  a second mode, the error is not always the platform one, because the rules of lines
  28-59 are checked before the proxy mode is established. At \<^verbatim>\<open>-T -R http://h -Z m3\<close>
  the error is the one of the body-size limit.
\<close>

theorem C10_earlier_rule_counterexample:
  "fst (get_common_options parse_size False
          (no_flags\<lparr>transparent_proxy := True, reverse_proxy := Some ''http://h'',
                    body_size_limit := Some ''m3''\<rparr>))
     = Inl (body_size_error ''m3'')
   \<and> body_size_error ''m3'' \<noteq> platform_error"
  by (simp add: eval)

text \<open>
  C10, amended: let transparent mode be requested on a platform without
  original-destination recovery, together with a second mode (socks5, or a reverse or
  upstream selector with a non-empty target). Then more than one selector is requested,
  the proxy-mode step itself ends in the platform error, resolution fails, and it never
  fails with the mutual-exclusion error. If moreover none of the rules checked before the
  proxy-mode step fires, resolution fails with the platform error.
\<close>

theorem C10_platform_before_exclusivity:
  assumes "transparent_proxy a" "\<not> oa"
    and "socks_proxy a \<or> truthy (reverse_proxy a) \<or> truthy (upstream_proxy a)"
  shows "1 < requested a
       \<and> proxy_mode_step oa a = Inl platform_error
       \<and> isl (fst (get_common_options ps oa a))
       \<and> fst (get_common_options ps oa a) \<noteq> Inl mode_conflict_error
       \<and> (\<not> stream_malformed ps a \<and> \<not> streamfile_conflict a \<and> \<not> body_malformed ps a
            \<longrightarrow> fst (get_common_options ps oa a) = Inl platform_error)"
  using assms
  by (auto simp: get_common_options_eq proxy_mode_step_eq platform_missing_def requested_def)

theorem C10_platform_before_exclusivity_witness:
  "fst (get_common_options parse_size False
          (no_flags\<lparr>transparent_proxy := True, reverse_proxy := Some ''http://h''\<rparr>))
     = Inl platform_error
   \<and> requested (no_flags\<lparr>transparent_proxy := True, reverse_proxy := Some ''http://h''\<rparr>) = 2"
proof -
  have t: "transparent_proxy (no_flags\<lparr>transparent_proxy := True, reverse_proxy := Some ''http://h''\<rparr>)"
    by simp
  have o: "\<not> False" by simp
  have s: "socks_proxy (no_flags\<lparr>transparent_proxy := True, reverse_proxy := Some ''http://h''\<rparr>)
      \<or> truthy (reverse_proxy (no_flags\<lparr>transparent_proxy := True, reverse_proxy := Some ''http://h''\<rparr>))
      \<or> truthy (upstream_proxy (no_flags\<lparr>transparent_proxy := True, reverse_proxy := Some ''http://h''\<rparr>))"
    by (simp add: truthy_def)
  show ?thesis
    using C10_platform_before_exclusivity[OF t o s, of parse_size]
    by (simp add: eval)
qed

end
